theory Spec2Isabelle
  imports Main "HOL-Library.Sublist"
begin

section \<open>The default access-control plugin of ozp-backend\<close>

text \<open>
  A shallow embedding of \<^verbatim>\<open>plugins/default_access_control/main.py\<close>: the token
  registry built by \<^verbatim>\<open>PluginMain.__init__\<close>, the tokenizer \<^verbatim>\<open>_split_tokens\<close>, the
  validator \<^verbatim>\<open>validate_marking\<close> and the two decision functions \<^verbatim>\<open>has_access\<close>
  and \<^verbatim>\<open>future_has_access\<close>.

  Python strings are modelled as \<^typ>\<open>string\<close> (lists of 8-bit characters), an argument
  that may be \<^verbatim>\<open>None\<close> as an \<^typ>\<open>string option\<close>, and every exception the code can raise as
  the left summand of a result.
\<close>

subsection \<open>Exceptions\<close>

datatype py_error = ValueError | KeyError | TypeError | AttributeError | IndexError

definition py_then :: "py_error + 'a \<Rightarrow> ('a \<Rightarrow> py_error + 'b) \<Rightarrow> py_error + 'b" where
  "py_then r f = (case r of Inl e \<Rightarrow> Inl e | Inr x \<Rightarrow> f x)"

subsection \<open>Strings: \<^verbatim>\<open>str.upper\<close> and \<^verbatim>\<open>str.split\<close>\<close>

text \<open>\<^verbatim>\<open>str.upper\<close> on ASCII text: the letters a..z (codes 97..122) move down by 32.\<close>

definition upper_char :: "char \<Rightarrow> char" where
  "upper_char c =
     (let n = (of_char c :: nat)
      in if 97 \<le> n \<and> n \<le> 122 then char_of (n - 32) else c)"

definition upper :: "string \<Rightarrow> string" where
  "upper s = map upper_char s"

text \<open>
  \<^verbatim>\<open>s.split(sep)\<close> for a non-empty separator: the text is scanned from the left, every
  occurrence of the separator found ends a segment and the scan resumes behind it. A
  character that does not start an occurrence belongs to the segment being read.
\<close>

function py_split :: "string \<Rightarrow> string \<Rightarrow> string list" where
  "py_split sep [] = [[]]"
| "py_split sep (c # cs) =
     (if sep \<noteq> [] \<and> prefix sep (c # cs)
      then [] # py_split sep (drop (length sep) (c # cs))
      else (case py_split sep cs of
              [] \<Rightarrow> [[c]]
            | seg # rest \<Rightarrow> (c # seg) # rest))"
  by pat_completeness auto
termination
  by (relation "measure (\<lambda>(sep, s). length s)") (auto simp: neq_Nil_conv)


subsection \<open>Tokens\<close>

text \<open>
  Modelled from the spec: the module \<^verbatim>\<open>tokens\<close> that declares the four token classes is
  not among the sources. Following the data model of the specification, a token has a kind,
  a short name, a long name and a level; a name or level that was not given to the
  constructor is absent (\<^term>\<open>None\<close>). The keyword arguments of a constructor are the
  record \<open>token_data\<close>, and a token extends it by its kind.
\<close>

datatype token_kind = Classification | DisseminationControl | Unknown | InvalidFormat

record token_data =
  short_name :: "string option"
  long_name :: "string option"
  level :: "int option"

record token = token_data +
  kind :: token_kind

definition ClassificationToken :: "token_data \<Rightarrow> token" where
  "ClassificationToken d =
     \<lparr>short_name = short_name d, long_name = long_name d, level = level d,
      kind = Classification\<rparr>"

definition DisseminationControlToken :: "token_data \<Rightarrow> token" where
  "DisseminationControlToken d =
     \<lparr>short_name = short_name d, long_name = long_name d, level = None,
      kind = DisseminationControl\<rparr>"

definition UnknownToken :: "string \<Rightarrow> token" where
  "UnknownToken text =
     \<lparr>short_name = None, long_name = Some text, level = None, kind = Unknown\<rparr>"

definition InvalidFormatToken :: token where
  "InvalidFormatToken =
     \<lparr>short_name = None, long_name = None, level = None, kind = InvalidFormat\<rparr>"

subsection \<open>The configuration and the plugin instance\<close>

text \<open>
  One entry of \<^verbatim>\<open>tokens_list\<close> is a dictionary read with \<^verbatim>\<open>input.get('type')\<close> and
  \<^verbatim>\<open>input.get('data')\<close>: either key may be missing.
\<close>

record token_def =
  type :: "string option"
  data :: "token_data option"

definition tokens_list :: "token_def list" where
  "tokens_list =
     [\<lparr>type = Some ''Classification'',
       data = Some \<lparr>short_name = Some ''U'', long_name = Some ''Unclassified'', level = Some 1\<rparr>\<rparr>,
      \<lparr>type = Some ''Classification'',
       data = Some \<lparr>short_name = Some ''C'', long_name = Some ''Confidential'', level = Some 2\<rparr>\<rparr>,
      \<lparr>type = Some ''Classification'',
       data = Some \<lparr>short_name = Some ''S'', long_name = Some ''Secret'', level = Some 3\<rparr>\<rparr>,
      \<lparr>type = Some ''Classification'',
       data = Some \<lparr>short_name = Some ''TS'', long_name = Some ''Top Secret'', level = Some 4\<rparr>\<rparr>,
      \<lparr>type = Some ''DisseminationControl'',
       data = Some \<lparr>short_name = Some ''FOUO'', long_name = Some ''FOR OFFICIAL USE ONLY'',
                    level = None\<rparr>\<rparr>]"

text \<open>
  The messages handed to the module's logger, and the plugin instance. The host's settings
  and request handle are stored and never read; their content is not modelled. The record
  carries the logger's output next to the instance fields, so that every method can be
  written as a function from the state before the call to a result and the state after it.
\<close>

datatype log_record = LogError string

typedecl host_object

record plugin_main =
  settings :: "host_object option"
  requests :: "host_object option"
  tokens :: "token list"
  logged :: "log_record list"

definition convert_dict_to_token :: "token_def \<Rightarrow> token" where
  "convert_dict_to_token input =
     (case (type input, data input) of
        (None, _) \<Rightarrow> InvalidFormatToken
      | (_, None) \<Rightarrow> InvalidFormatToken
      | (Some ty, Some d) \<Rightarrow>
          if ty = ''Classification'' then ClassificationToken d
          else if ty = ''DisseminationControl'' then DisseminationControlToken d
          else InvalidFormatToken)"

text \<open>
  \<^verbatim>\<open>__init__\<close> builds the registry from a list of definitions; the source passes the
  module constant \<^verbatim>\<open>tokens_list\<close>. The logger starts with the messages already written.
\<close>

definition build_tokens :: "token_def list \<Rightarrow> token list" where
  "build_tokens defs = map convert_dict_to_token defs"

definition init :: "host_object option \<Rightarrow> host_object option \<Rightarrow> log_record list \<Rightarrow> plugin_main" where
  "init s r l = \<lparr>settings = s, requests = r, tokens = build_tokens tokens_list, logged = l\<rparr>"

subsection \<open>The tokenizer\<close>

text \<open>
  The two dictionaries of \<^verbatim>\<open>_split_tokens\<close> are filled by a loop over the registry: a later
  token replaces an earlier one with the same upper-cased name. \<^verbatim>\<open>token.long_name.upper()\<close>
  raises \<^verbatim>\<open>AttributeError\<close> for a token whose name is absent.
\<close>

fun name_lookup ::
  "(token \<Rightarrow> string option) \<Rightarrow> token list \<Rightarrow> (string \<rightharpoonup> token) \<Rightarrow> py_error + (string \<rightharpoonup> token)"
where
  "name_lookup name [] m = Inr m"
| "name_lookup name (t # ts) m =
     (case name t of
        None \<Rightarrow> Inl AttributeError
      | Some n \<Rightarrow> name_lookup name ts (m(upper n \<mapsto> t)))"

text \<open>The body of the loop over the segments: long names are consulted first.\<close>

definition current_token :: "(string \<rightharpoonup> token) \<Rightarrow> (string \<rightharpoonup> token) \<Rightarrow> string \<Rightarrow> token" where
  "current_token long_name_lookup short_name_lookup marking =
     (case long_name_lookup (upper marking) of
        Some t \<Rightarrow> t
      | None \<Rightarrow>
          (case short_name_lookup (upper marking) of
             Some t \<Rightarrow> t
           | None \<Rightarrow> UnknownToken marking))"

text \<open>\<^verbatim>\<open>str.split\<close> raises \<^verbatim>\<open>ValueError\<close> for an empty separator.\<close>

definition split_tokens ::
  "plugin_main \<Rightarrow> string \<Rightarrow> string \<Rightarrow> (py_error + token list) \<times> plugin_main"
where
  "split_tokens self input_marking delimiter =
     (py_then (name_lookup long_name (tokens self) Map.empty) (\<lambda>long_name_lookup.
      py_then (name_lookup short_name (tokens self) Map.empty) (\<lambda>short_name_lookup.
      if delimiter = [] then Inl ValueError
      else Inr (foldl (\<lambda>output_tokens marking.
                         output_tokens @ [current_token long_name_lookup short_name_lookup marking])
                  [] (py_split delimiter input_marking)))),
      self)"

subsection \<open>The permissive decision\<close>

definition has_access ::
  "plugin_main \<Rightarrow> string option \<Rightarrow> string option \<Rightarrow> (py_error + bool) \<times> plugin_main"
where
  "has_access self user_accesses_json marking = (Inr True, self)"

subsection \<open>Decoded JSON values\<close>

text \<open>
  What \<^verbatim>\<open>json.loads\<close> returns: \<^verbatim>\<open>None\<close>, a bool, an int, a float, a str, a list or a
  dict with string keys (an association list read from the left). The value of a float is
  not modelled: no operation of the code reads it.
\<close>

datatype json =
    JNull
  | JBool bool
  | JInt int
  | JFloat
  | JString string
  | JArray "json list"
  | JObject "(string \<times> json) list"

text \<open>
  \<^verbatim>\<open>json.loads\<close> belongs to the standard library; the model takes the decoder as a
  parameter \<open>loads\<close> from texts to values or exceptions (\<^verbatim>\<open>ValueError\<close> for a text that is
  not JSON). Handing it \<^verbatim>\<open>None\<close> raises \<^verbatim>\<open>TypeError\<close>.
\<close>

definition json_loads :: "(string \<Rightarrow> py_error + json) \<Rightarrow> string option \<Rightarrow> py_error + json" where
  "json_loads loads text = (case text of None \<Rightarrow> Inl TypeError | Some s \<Rightarrow> loads s)"

text \<open>\<^verbatim>\<open>value[key]\<close> for a string key: only a dict can be subscripted by a string.\<close>

definition py_getitem :: "json \<Rightarrow> string \<Rightarrow> py_error + json" where
  "py_getitem v key =
     (case v of
        JObject kvs \<Rightarrow> (case map_of kvs key of None \<Rightarrow> Inl KeyError | Some x \<Rightarrow> Inr x)
      | _ \<Rightarrow> Inl TypeError)"

text \<open>
  \<^verbatim>\<open>s in value\<close> for a string \<open>s\<close>: an element equal to \<open>s\<close> in a list, a key in a dict,
  a substring in a str, \<^verbatim>\<open>TypeError\<close> for anything else.
\<close>

definition py_contains :: "json \<Rightarrow> string \<Rightarrow> py_error + bool" where
  "py_contains v s =
     (case v of
        JArray xs \<Rightarrow> Inr (JString s \<in> set xs)
      | JObject kvs \<Rightarrow> Inr (s \<in> set (map fst kvs))
      | JString t \<Rightarrow> Inr (sublist s t)
      | _ \<Rightarrow> Inl TypeError)"

text \<open>
  \<^verbatim>\<open>a += b\<close>: a list is extended by the elements of an iterable (the elements of a list,
  the keys of a dict, the characters of a str), a str is concatenated with a str, numbers
  (bools count as 0 and 1) are added, and every other combination raises \<^verbatim>\<open>TypeError\<close>.
\<close>

definition py_iter :: "json \<Rightarrow> py_error + json list" where
  "py_iter v =
     (case v of
        JArray xs \<Rightarrow> Inr xs
      | JObject kvs \<Rightarrow> Inr (map (\<lambda>kv. JString (fst kv)) kvs)
      | JString t \<Rightarrow> Inr (map (\<lambda>c. JString [c]) t)
      | _ \<Rightarrow> Inl TypeError)"

definition py_number :: "json \<Rightarrow> json option" where
  "py_number v =
     (case v of
        JBool b \<Rightarrow> Some (JInt (if b then 1 else 0))
      | JInt i \<Rightarrow> Some (JInt i)
      | JFloat \<Rightarrow> Some JFloat
      | _ \<Rightarrow> None)"

definition py_iadd :: "json \<Rightarrow> json \<Rightarrow> py_error + json" where
  "py_iadd a b =
     (case a of
        JArray xs \<Rightarrow> py_then (py_iter b) (\<lambda>ys. Inr (JArray (xs @ ys)))
      | JString s \<Rightarrow> (case b of JString t \<Rightarrow> Inr (JString (s @ t)) | _ \<Rightarrow> Inl TypeError)
      | JObject kvs \<Rightarrow> Inl TypeError
      | JNull \<Rightarrow> Inl TypeError
      | _ \<Rightarrow>
          (case (py_number a, py_number b) of
             (Some (JInt i), Some (JInt j)) \<Rightarrow> Inr (JInt (i + j))
           | (Some _, Some _) \<Rightarrow> Inr JFloat
           | _ \<Rightarrow> Inl TypeError))"

text \<open>
  The list comprehension \<^verbatim>\<open>[i for i in required_controls if i not in user_controls]\<close>:
  the membership test runs once per required control, in order, and its exception ends
  the comprehension.
\<close>

fun missing_controls :: "json \<Rightarrow> string list \<Rightarrow> py_error + string list" where
  "missing_controls user_controls [] = Inr []"
| "missing_controls user_controls (i # required_controls) =
     py_then (py_contains user_controls i) (\<lambda>present.
     py_then (missing_controls user_controls required_controls) (\<lambda>rest.
     Inr (if present then rest else i # rest)))"

subsection \<open>The strict decision\<close>

text \<open>\<^verbatim>\<open>'{0!s}'.format(x)\<close> for an argument that is a str or \<^verbatim>\<open>None\<close>.\<close>

definition py_str :: "string option \<Rightarrow> string" where
  "py_str x = (case x of None \<Rightarrow> ''None'' | Some s \<Rightarrow> s)"

definition future_has_access ::
  "(string \<Rightarrow> py_error + json) \<Rightarrow> plugin_main \<Rightarrow> string option \<Rightarrow> string option
     \<Rightarrow> (py_error + bool) \<times> plugin_main"
where
  "future_has_access loads self user_accesses_json marking =
     (case marking of
        None \<Rightarrow> (Inr False, self)
      | Some m \<Rightarrow>
        if m = [] then (Inr False, self)
        else
          let markings = py_split ''//'' m in
          (case json_loads loads user_accesses_json of
             Inl ValueError \<Rightarrow>
               (Inr False,
                self\<lparr>logged := logged self @
                  [LogError (''Error parsing JSON data: '' @ py_str user_accesses_json)]\<rparr>)
           | Inl e \<Rightarrow> (Inl e, self)
           | Inr user_accesses \<Rightarrow>
               (py_then (py_getitem user_accesses ''clearances'') (\<lambda>clearances.
                (case markings of
                   [] \<Rightarrow> Inl IndexError
                 | required_clearance # required_controls \<Rightarrow>
                     py_then (py_contains clearances required_clearance) (\<lambda>held.
                     if \<not> held then Inr False
                     else
                       py_then (py_getitem user_accesses ''formal_accesses'') (\<lambda>formal_accesses.
                       py_then (py_getitem user_accesses ''visas'') (\<lambda>visas.
                       py_then (py_iadd formal_accesses visas) (\<lambda>user_controls.
                       py_then (missing_controls user_controls required_controls) (\<lambda>missing.
                       if missing = [] then Inr True else Inr False))))))),
                self)))"

subsection \<open>The validator\<close>

definition validate_marking ::
  "plugin_main \<Rightarrow> string option \<Rightarrow> (py_error + bool) \<times> plugin_main"
where
  "validate_marking self marking =
     (case marking of
        None \<Rightarrow> (Inr False, self)
      | Some m \<Rightarrow>
        if m = [] then (Inr False, self)
        else
          (case split_tokens self m ''//'' of
             (Inl e, self') \<Rightarrow> (Inl e, self')
           | (Inr toks, self') \<Rightarrow>
               (case toks of
                  [] \<Rightarrow> (Inl IndexError, self')
                | t # _ \<Rightarrow>
                    if kind t \<noteq> Classification then (Inr False, self') else (Inr True, self'))))"

subsection \<open>Notions used to state the properties\<close>

text \<open>
  Every token of the registry carries both names. The registry that \<^verbatim>\<open>__init__\<close> builds
  from \<^verbatim>\<open>tokens_list\<close> does.
\<close>

definition names_present :: "token list \<Rightarrow> bool" where
  "names_present ts = (\<forall>t \<in> set ts. short_name t \<noteq> None \<and> long_name t \<noteq> None)"

text \<open>
  The lookup of the specification, as a function of the registry list: the name is compared
  without regard to case, first with the long names, then with the short names, and a name
  found nowhere gives an unknown token that carries the text as it was written. Among
  tokens with the same upper-cased name the one registered last is found.
\<close>

definition named :: "(token \<Rightarrow> string option) \<Rightarrow> string \<Rightarrow> token \<Rightarrow> bool" where
  "named name text t = (map_option upper (name t) = Some (upper text))"

definition lookup :: "token list \<Rightarrow> string \<Rightarrow> token" where
  "lookup ts text =
     (case find (named long_name text) (rev ts) of
        Some t \<Rightarrow> t
      | None \<Rightarrow>
          (case find (named short_name text) (rev ts) of
             Some t \<Rightarrow> t
           | None \<Rightarrow> UnknownToken text))"

text \<open>
  A finite table of \<^verbatim>\<open>json.loads\<close> for the examples: the values of three JSON texts, and
  \<^verbatim>\<open>ValueError\<close> for the text \<^verbatim>\<open>not json\<close>. The examples use no other text.
\<close>

definition profile_text :: string where
  "profile_text =
     ''{\"clearances\": [\"S\"], \"formal_accesses\": [\"ABC\"], \"visas\": [\"XYZ\"]}''"

definition profile_value :: json where
  "profile_value =
     JObject [(''clearances'', JArray [JString ''S'']),
              (''formal_accesses'', JArray [JString ''ABC'']),
              (''visas'', JArray [JString ''XYZ''])]"

definition sample_loads :: "string \<Rightarrow> py_error + json" where
  "sample_loads s =
     (if s = profile_text then Inr profile_value
      else if s = ''{}'' then Inr (JObject [])
      else if s = ''[]'' then Inr (JArray [])
      else Inl ValueError)"

section \<open>Properties\<close>

subsection \<open>Splitting\<close>

lemma py_split_not_Nil: "py_split sep s \<noteq> []"
  by (induction sep s rule: py_split.induct) (auto split: list.splits)





subsection \<open>The dictionaries of the tokenizer and the lookup of the specification\<close>

lemma find_snoc:
  "find P (xs @ [x]) = (case find P xs of Some y \<Rightarrow> Some y | None \<Rightarrow> if P x then Some x else None)"
  by (induction xs) auto

lemma name_lookup_present:
  "\<forall>t \<in> set ts. name t \<noteq> None \<Longrightarrow>
   name_lookup name ts m =
     Inr (\<lambda>k. case find (\<lambda>t. map_option upper (name t) = Some k) (rev ts) of
                 Some t \<Rightarrow> Some t
               | None \<Rightarrow> m k)"
proof (induction ts arbitrary: m)
  case Nil
  then show ?case by simp
next
  case (Cons t ts)
  then obtain n where n: "name t = Some n" by auto
  have "name_lookup name (t # ts) m = name_lookup name ts (m(upper n \<mapsto> t))"
    using n by simp
  also have "\<dots> = Inr (\<lambda>k. case find (\<lambda>t. map_option upper (name t) = Some k) (rev ts) of
                 Some t \<Rightarrow> Some t
               | None \<Rightarrow> (m(upper n \<mapsto> t)) k)"
    using Cons by simp
  also have "\<dots> = Inr (\<lambda>k. case find (\<lambda>t. map_option upper (name t) = Some k) (rev (t # ts)) of
                 Some t \<Rightarrow> Some t
               | None \<Rightarrow> m k)"
    using n by (auto simp: find_snoc fun_eq_iff split: option.splits)
  finally show ?case .
qed

lemma name_lookup_empty:
  assumes "\<forall>t \<in> set ts. name t \<noteq> None"
  shows "\<exists>L. name_lookup name ts Map.empty = Inr L \<and>
             (\<forall>text. L (upper text) = find (named name text) (rev ts))"
proof -
  have "(case find (\<lambda>t. map_option upper (name t) = Some (upper seg)) (rev ts) of
           Some t \<Rightarrow> Some t | None \<Rightarrow> Map.empty (upper seg)) =
        find (named name seg) (rev ts)" for seg
    unfolding named_def by (simp split: option.splits)
  then show ?thesis
    by (simp add: name_lookup_present[OF assms])
qed


lemma name_lookup_absent:
  "\<exists>t \<in> set ts. name t = None \<Longrightarrow> name_lookup name ts m = Inl AttributeError"
  by (induction ts arbitrary: m) (auto split: option.splits)

lemma foldl_append_map: "foldl (\<lambda>out x. out @ [f x]) acc xs = acc @ map f xs"
  by (induction xs arbitrary: acc) auto

lemma split_tokens_eq:
  assumes "names_present (tokens self)" and "delimiter \<noteq> []"
  shows "split_tokens self m delimiter =
           (Inr (map (lookup (tokens self)) (py_split delimiter m)), self)"
proof -
  have l: "\<forall>t \<in> set (tokens self). long_name t \<noteq> None"
    and s: "\<forall>t \<in> set (tokens self). short_name t \<noteq> None"
    using assms(1) by (auto simp: names_present_def)
  obtain L where L: "name_lookup long_name (tokens self) Map.empty = Inr L"
    "\<And>seg. L (upper seg) = find (named long_name seg) (rev (tokens self))"
    using name_lookup_empty[OF l] by blast
  obtain S where S: "name_lookup short_name (tokens self) Map.empty = Inr S"
    "\<And>seg. S (upper seg) = find (named short_name seg) (rev (tokens self))"
    using name_lookup_empty[OF s] by blast
  have "current_token L S = lookup (tokens self)"
    by (simp add: fun_eq_iff current_token_def lookup_def L(2) S(2) split: option.splits)
  then show ?thesis
    using assms(2) by (simp add: split_tokens_def py_then_def L(1) S(1) foldl_append_map)
qed





lemma names_present_init: "names_present (tokens (init s r l))"
  by (simp add: names_present_def init_def build_tokens_def tokens_list_def
      convert_dict_to_token_def ClassificationToken_def DisseminationControlToken_def)

subsection \<open>The permissive decision\<close>

text \<open>
  C5. \<^verbatim>\<open>has_access\<close> returns \<^verbatim>\<open>True\<close> for every profile and every marking, whether a
  string of any content or \<^verbatim>\<open>None\<close>, and raises nothing.
\<close>

theorem has_access_always_true:
  "fst (has_access self user_accesses_json marking) = Inr True"
  by (simp add: has_access_def)

subsection \<open>The tokenizer and the validator\<close>


lemma validate_marking_eq:
  assumes "names_present (tokens self)" and "m \<noteq> []" and "py_split ''//'' m = seg # rest"
  shows "validate_marking self (Some m) =
           (Inr (kind (lookup (tokens self) seg) = Classification), self)"
  using assms by (simp add: validate_marking_def split_tokens_eq)





subsection \<open>The strict decision\<close>

lemma missing_controls_array:
  "missing_controls (JArray xs) required = Inr (filter (\<lambda>i. JString i \<notin> set xs) required)"
  by (induction required) (simp_all add: py_then_def py_contains_def)

lemma future_has_access_nonempty:
  assumes "m \<noteq> []"
  shows "future_has_access loads self user_accesses_json (Some m) =
     (case json_loads loads user_accesses_json of
        Inl ValueError \<Rightarrow>
          (Inr False,
           self\<lparr>logged := logged self @
             [LogError (''Error parsing JSON data: '' @ py_str user_accesses_json)]\<rparr>)
      | Inl e \<Rightarrow> (Inl e, self)
      | Inr user_accesses \<Rightarrow>
          (py_then (py_getitem user_accesses ''clearances'') (\<lambda>clearances.
           (case py_split ''//'' m of
              [] \<Rightarrow> Inl IndexError
            | required_clearance # required_controls \<Rightarrow>
                py_then (py_contains clearances required_clearance) (\<lambda>held.
                if \<not> held then Inr False
                else
                  py_then (py_getitem user_accesses ''formal_accesses'') (\<lambda>formal_accesses.
                  py_then (py_getitem user_accesses ''visas'') (\<lambda>visas.
                  py_then (py_iadd formal_accesses visas) (\<lambda>user_controls.
                  py_then (missing_controls user_controls required_controls) (\<lambda>missing.
                  if missing = [] then Inr True else Inr False))))))),
           self))"
  using assms by (simp add: future_has_access_def Let_def)

lemma sample_loads_simps:
  "sample_loads profile_text = Inr profile_value"
  "sample_loads ''{}'' = Inr (JObject [])"
  "sample_loads ''[]'' = Inr (JArray [])"
  "sample_loads ''not json'' = Inl ValueError"
  by (simp_all add: sample_loads_def profile_text_def)

text \<open>
  C4. For a marking that is \<^verbatim>\<open>None\<close> or the empty string \<^verbatim>\<open>future_has_access\<close> returns
  \<^verbatim>\<open>False\<close> whatever the profile argument and the decoder are: the profile is not decoded,
  nothing is logged and the state is as before.
\<close>

theorem future_has_access_empty_marking:
  "future_has_access loads self user_accesses_json None = (Inr False, self)
   \<and> future_has_access loads self user_accesses_json (Some []) = (Inr False, self)"
  by (simp add: future_has_access_def)

text \<open>
  C3, as the code has it. When decoding the profile text raises \<^verbatim>\<open>ValueError\<close>,
  \<^verbatim>\<open>future_has_access\<close> returns \<^verbatim>\<open>False\<close> and raises nothing; for a non-empty marking it
  appends one error message naming the text to the log, and for a marking that is \<^verbatim>\<open>None\<close>
  or empty it returns before decoding and logs nothing.
\<close>

theorem future_has_access_unparsable:
  assumes "loads u = Inl ValueError"
  shows "(m \<noteq> [] \<longrightarrow>
            future_has_access loads self (Some u) (Some m) =
              (Inr False,
               self\<lparr>logged := logged self @ [LogError (''Error parsing JSON data: '' @ u)]\<rparr>))
       \<and> future_has_access loads self (Some u) None = (Inr False, self)
       \<and> future_has_access loads self (Some u) (Some []) = (Inr False, self)"
  using assms
  by (simp add: future_has_access_nonempty json_loads_def py_str_def)
     (simp add: future_has_access_def)

theorem future_has_access_unparsable_witness:
  "sample_loads ''not json'' = Inl ValueError
   \<and> future_has_access sample_loads (init None None []) (Some ''not json'') (Some ''S'') =
       (Inr False,
        (init None None [])\<lparr>logged := [LogError ''Error parsing JSON data: not json'']\<rparr>)"
proof -
  have h: "sample_loads ''not json'' = Inl ValueError"
    by (simp add: sample_loads_simps)
  show ?thesis
    using h future_has_access_unparsable[where loads = sample_loads and u = "''not json''"
        and m = "''S''" and self = "init None None []", OF h]
    by (simp add: init_def)
qed

text \<open>
  The claim C3 as stated, that a diagnostic is logged for every marking, fails for the empty
  marking: with a profile text that does not decode, the call returns \<^verbatim>\<open>False\<close> and the
  log is as empty as before.
\<close>

theorem future_has_access_unparsable_empty_marking_counterexample:
  "sample_loads ''not json'' = Inl ValueError
   \<and> future_has_access sample_loads (init None None []) (Some ''not json'') (Some []) =
       (Inr False, init None None [])
   \<and> logged (init None None []) = []"
  by (simp add: sample_loads_simps future_has_access_def init_def)

lemma future_has_access_arrays:
  assumes "m \<noteq> []"
    and "py_split ''//'' m = rc # rcs"
    and "loads u = Inr (JObject kvs)"
    and "map_of kvs ''clearances'' = Some (JArray cs)"
    and "map_of kvs ''formal_accesses'' = Some (JArray fa)"
    and "map_of kvs ''visas'' = Some (JArray vs)"
  shows "future_has_access loads self (Some u) (Some m) =
           (Inr (JString rc \<in> set cs \<and> (\<forall>c \<in> set rcs. JString c \<in> set fa \<union> set vs)), self)"
  using assms
  by (simp add: future_has_access_nonempty json_loads_def py_getitem_def py_then_def
      py_contains_def py_iadd_def py_iter_def missing_controls_array filter_empty_conv)

text \<open>
  C1. For a non-empty marking and a profile text that decodes to an object whose fields
  \<^verbatim>\<open>clearances\<close>, \<^verbatim>\<open>formal_accesses\<close> and \<^verbatim>\<open>visas\<close> are lists, \<^verbatim>\<open>future_has_access\<close>
  returns \<^verbatim>\<open>True\<close> exactly when the first segment of the marking is, as a string compared
  character by character, an element of \<^verbatim>\<open>clearances\<close> and every later segment is an
  element of \<^verbatim>\<open>formal_accesses\<close> or of \<^verbatim>\<open>visas\<close>. No level is consulted, and with no
  later segment the clearance test alone decides.
\<close>

theorem future_has_access_membership:
  assumes "m \<noteq> []"
    and "loads u = Inr (JObject kvs)"
    and "map_of kvs ''clearances'' = Some (JArray cs)"
    and "map_of kvs ''formal_accesses'' = Some (JArray fa)"
    and "map_of kvs ''visas'' = Some (JArray vs)"
  shows "\<exists>required_clearance required_controls.
           py_split ''//'' m = required_clearance # required_controls
           \<and> future_has_access loads self (Some u) (Some m) =
               (Inr (JString required_clearance \<in> set cs
                     \<and> (\<forall>c \<in> set required_controls. JString c \<in> set fa \<union> set vs)),
                self)"
proof -
  obtain required_clearance required_controls
    where segments: "py_split ''//'' m = required_clearance # required_controls"
    using py_split_not_Nil[of "''//''" m] by (cases "py_split ''//'' m") auto
  have "future_has_access loads self (Some u) (Some m) =
          (Inr (JString required_clearance \<in> set cs
                \<and> (\<forall>c \<in> set required_controls. JString c \<in> set fa \<union> set vs)),
           self)"
    using assms(1) segments assms(2-5)
    by (rule future_has_access_arrays[where loads = loads and u = u])
  with segments show ?thesis by blast
qed

theorem future_has_access_membership_witness:
  "future_has_access sample_loads (init None None []) (Some profile_text) (Some ''S//ABC//XYZ'') =
     (Inr True, init None None [])
   \<and> future_has_access sample_loads (init None None []) (Some profile_text) (Some ''S//ABC//FOUO'') =
     (Inr False, init None None [])
   \<and> future_has_access sample_loads (init None None []) (Some profile_text) (Some ''C'') =
     (Inr False, init None None [])"
proof -
  have l: "sample_loads profile_text =
             Inr (JObject [(''clearances'', JArray [JString ''S'']),
                           (''formal_accesses'', JArray [JString ''ABC'']),
                           (''visas'', JArray [JString ''XYZ''])])"
    by (simp add: sample_loads_simps profile_value_def)
  have c: "map_of [(''clearances'', JArray [JString ''S'']),
                   (''formal_accesses'', JArray [JString ''ABC'']),
                   (''visas'', JArray [JString ''XYZ''])] ''clearances'' = Some (JArray [JString ''S''])"
    and f: "map_of [(''clearances'', JArray [JString ''S'']),
                   (''formal_accesses'', JArray [JString ''ABC'']),
                   (''visas'', JArray [JString ''XYZ''])] ''formal_accesses'' = Some (JArray [JString ''ABC''])"
    and v: "map_of [(''clearances'', JArray [JString ''S'']),
                   (''formal_accesses'', JArray [JString ''ABC'']),
                   (''visas'', JArray [JString ''XYZ''])] ''visas'' = Some (JArray [JString ''XYZ''])"
    by simp_all
  have n1: "''S//ABC//XYZ'' \<noteq> []" and n2: "''S//ABC//FOUO'' \<noteq> []" and n3: "''C'' \<noteq> []"
    by simp_all
  show ?thesis
    using future_has_access_membership[where loads = sample_loads and u = profile_text
        and self = "init None None []", OF n1 l c f v]
      future_has_access_membership[where loads = sample_loads and u = profile_text
        and self = "init None None []", OF n2 l c f v]
      future_has_access_membership[where loads = sample_loads and u = profile_text
        and self = "init None None []", OF n3 l c f v]
    by simp
qed



subsection \<open>Building the registry\<close>






subsection \<open>The entry points together\<close>

text \<open>
  C8, as the code has it. \<^verbatim>\<open>has_access\<close> returns a boolean for every input, and so does
  \<^verbatim>\<open>validate_marking\<close> on a registry whose tokens carry both names. \<^verbatim>\<open>future_has_access\<close>
  returns a boolean when the marking is \<^verbatim>\<open>None\<close> or empty, when decoding the profile text
  raises \<^verbatim>\<open>ValueError\<close>, and when the text decodes to an object whose fields
  \<^verbatim>\<open>clearances\<close>, \<^verbatim>\<open>formal_accesses\<close> and \<^verbatim>\<open>visas\<close> are lists.
\<close>

theorem entry_points_return_boolean:
  assumes "names_present (tokens self)"
  shows "(\<exists>b. fst (has_access self user_accesses_json marking) = Inr b)
       \<and> (\<exists>b. fst (validate_marking self marking) = Inr b)
       \<and> (marking = None \<or> marking = Some [] \<or> loads u = Inl ValueError
            \<or> (\<exists>kvs cs fa vs. loads u = Inr (JObject kvs)
                  \<and> map_of kvs ''clearances'' = Some (JArray cs)
                  \<and> map_of kvs ''formal_accesses'' = Some (JArray fa)
                  \<and> map_of kvs ''visas'' = Some (JArray vs)) \<longrightarrow>
           (\<exists>b. fst (future_has_access loads self (Some u) marking) = Inr b))"
proof -
  have "fst (has_access self user_accesses_json marking) = Inr True"
    by (simp add: has_access_def)
  then have 1: "\<exists>b. fst (has_access self user_accesses_json marking) = Inr b" ..
  have 2: "\<exists>b. fst (validate_marking self marking) = Inr b"
  proof (cases "marking = None \<or> marking = Some []")
    case True
    then have "fst (validate_marking self marking) = Inr False"
      by (auto simp: validate_marking_def)
    then show ?thesis ..
  next
    case False
    then obtain m where m: "marking = Some m" "m \<noteq> []" by auto
    obtain seg rest where "py_split ''//'' m = seg # rest"
      using py_split_not_Nil[of "''//''" m] by (cases "py_split ''//'' m") auto
    then have "fst (validate_marking self marking) =
                 Inr (kind (lookup (tokens self) seg) = Classification)"
      using validate_marking_eq[OF assms m(2)] m(1) by simp
    then show ?thesis ..
  qed
  have 3: "\<exists>b. fst (future_has_access loads self (Some u) marking) = Inr b"
    if "marking = None \<or> marking = Some [] \<or> loads u = Inl ValueError
            \<or> (\<exists>kvs cs fa vs. loads u = Inr (JObject kvs)
                  \<and> map_of kvs ''clearances'' = Some (JArray cs)
                  \<and> map_of kvs ''formal_accesses'' = Some (JArray fa)
                  \<and> map_of kvs ''visas'' = Some (JArray vs))"
  proof (cases "marking = None \<or> marking = Some []")
    case True
    then have "fst (future_has_access loads self (Some u) marking) = Inr False"
      by (auto simp: future_has_access_def)
    then show ?thesis ..
  next
    case False
    then obtain m where m: "marking = Some m" "m \<noteq> []" by auto
    from that False consider "loads u = Inl ValueError"
      | kvs cs fa vs where "loads u = Inr (JObject kvs)"
          "map_of kvs ''clearances'' = Some (JArray cs)"
          "map_of kvs ''formal_accesses'' = Some (JArray fa)"
          "map_of kvs ''visas'' = Some (JArray vs)"
      by blast
    then show ?thesis
    proof cases
      case 1
      then have "fst (future_has_access loads self (Some u) marking) = Inr False"
        using m by (simp add: future_has_access_nonempty json_loads_def)
      then show ?thesis ..
    next
      case 2
      obtain rc rcs where segments: "py_split ''//'' m = rc # rcs"
        using py_split_not_Nil[of "''//''" m] by (cases "py_split ''//'' m") auto
      have "future_has_access loads self (Some u) (Some m) =
           (Inr (JString rc \<in> set cs \<and> (\<forall>c \<in> set rcs. JString c \<in> set fa \<union> set vs)), self)"
        using m(2) segments 2
        by (rule future_has_access_arrays[where loads = loads and u = u])
      then have "fst (future_has_access loads self (Some u) marking) =
           Inr (JString rc \<in> set cs \<and> (\<forall>c \<in> set rcs. JString c \<in> set fa \<union> set vs))"
        using m(1) by simp
      then show ?thesis ..
    qed
  qed
  from 1 2 3 show ?thesis by blast
qed

theorem entry_points_return_boolean_witness:
  "names_present (tokens (init None None []))
   \<and> (\<exists>b. fst (has_access (init None None []) None (Some ''S'')) = Inr b)
   \<and> (\<exists>b. fst (validate_marking (init None None []) (Some ''S'')) = Inr b)
   \<and> (\<exists>b. fst (future_has_access sample_loads (init None None []) (Some ''not json'') (Some ''S''))
          = Inr b)"
proof -
  have h: "names_present (tokens (init None None []))"
    by (rule names_present_init)
  show ?thesis
    using h entry_points_return_boolean[where self = "init None None []" and loads = sample_loads
        and u = "''not json''" and marking = "Some ''S''" and user_accesses_json = None, OF h]
      sample_loads_simps(4)
    by blast
qed


text \<open>
  The claim C8 as stated, that no input makes an entry point raise, fails for the profile
  text \<^verbatim>\<open>{}\<close> with the marking \<^verbatim>\<open>S\<close>: the text decodes, the object has no key
  \<^verbatim>\<open>clearances\<close>, and \<^verbatim>\<open>future_has_access\<close> raises \<^verbatim>\<open>KeyError\<close>.
\<close>

theorem future_has_access_raises_counterexample:
  "future_has_access sample_loads (init None None []) (Some ''{}'') (Some ''S'') =
     (Inl KeyError, init None None [])"
  by (simp add: future_has_access_nonempty sample_loads_simps json_loads_def py_getitem_def py_then_def)

subsection \<open>The registry is read only\<close>

lemma split_tokens_snd: "snd (split_tokens self m d) = self"
  by (simp add: split_tokens_def)

lemma split_tokens_fst:
  "tokens self' = tokens self \<Longrightarrow> fst (split_tokens self' m d) = fst (split_tokens self m d)"
  by (simp add: split_tokens_def)

lemma validate_marking_snd: "snd (validate_marking self marking) = self"
proof (cases marking)
  case None
  then show ?thesis by (simp add: validate_marking_def)
next
  case (Some m)
  obtain r where r: "split_tokens self m ''//'' = (r, self)"
    using split_tokens_snd[of self m "''//''"] by (cases "split_tokens self m ''//''") simp
  show ?thesis
    using Some r by (simp add: validate_marking_def split: sum.splits list.splits)
qed

lemma validate_marking_fst:
  assumes "tokens self' = tokens self"
  shows "fst (validate_marking self' marking) = fst (validate_marking self marking)"
proof (cases marking)
  case None
  then show ?thesis by (simp add: validate_marking_def)
next
  case (Some m)
  obtain r where r: "split_tokens self m ''//'' = (r, self)"
    using split_tokens_snd[of self m "''//''"] by (cases "split_tokens self m ''//''") simp
  obtain r' where r': "split_tokens self' m ''//'' = (r', self')"
    using split_tokens_snd[of self' m "''//''"] by (cases "split_tokens self' m ''//''") simp
  have "r' = r"
    using split_tokens_fst[OF assms, of m "''//''"] r r' by simp
  then show ?thesis
    using Some r r' by (simp add: validate_marking_def split: sum.splits list.splits)
qed

lemma future_has_access_snd:
  "tokens (snd (future_has_access loads self u marking)) = tokens self"
proof (cases "marking = None \<or> marking = Some []")
  case True
  then show ?thesis by (auto simp: future_has_access_def)
next
  case False
  then obtain m where m: "marking = Some m" "m \<noteq> []" by auto
  show ?thesis
  proof (cases "json_loads loads u")
    case (Inl e)
    then show ?thesis
      using m by (cases e) (simp_all add: future_has_access_nonempty)
  next
    case (Inr v)
    then show ?thesis
      using m by (simp add: future_has_access_nonempty)
  qed
qed

lemma future_has_access_fst:
  "fst (future_has_access loads self' u marking) = fst (future_has_access loads self u marking)"
proof (cases "marking = None \<or> marking = Some []")
  case True
  then show ?thesis by (auto simp: future_has_access_def)
next
  case False
  then obtain m where m: "marking = Some m" "m \<noteq> []" by auto
  show ?thesis
  proof (cases "json_loads loads u")
    case (Inl e)
    then show ?thesis
      using m by (cases e) (simp_all add: future_has_access_nonempty)
  next
    case (Inr v)
    then show ?thesis
      using m by (simp add: future_has_access_nonempty)
  qed
qed

text \<open>
  C9. None of \<^verbatim>\<open>future_has_access\<close>, \<^verbatim>\<open>validate_marking\<close>, \<^verbatim>\<open>has_access\<close> and
  \<^verbatim>\<open>_split_tokens\<close> changes the token registry of the instance, and the result of each is
  determined by its arguments and the registry: two states with the same registry, whatever
  their settings, request handle and log are, give the same result for the same arguments.
\<close>

theorem registry_unchanged_results_determined:
  "tokens (snd (future_has_access loads self user_accesses_json marking)) = tokens self
   \<and> tokens (snd (validate_marking self marking)) = tokens self
   \<and> tokens (snd (has_access self user_accesses_json marking)) = tokens self
   \<and> tokens (snd (split_tokens self input_marking delimiter)) = tokens self
   \<and> (tokens self' = tokens self \<longrightarrow>
        fst (future_has_access loads self' user_accesses_json marking) =
          fst (future_has_access loads self user_accesses_json marking)
        \<and> fst (validate_marking self' marking) = fst (validate_marking self marking)
        \<and> fst (has_access self' user_accesses_json marking) =
            fst (has_access self user_accesses_json marking)
        \<and> fst (split_tokens self' input_marking delimiter) =
            fst (split_tokens self input_marking delimiter))"
proof -
  have a: "tokens (snd (future_has_access loads self user_accesses_json marking)) = tokens self"
    by (rule future_has_access_snd)
  have b: "tokens (snd (validate_marking self marking)) = tokens self"
    by (simp add: validate_marking_snd)
  have c: "tokens (snd (has_access self user_accesses_json marking)) = tokens self"
    by (simp add: has_access_def)
  have d: "tokens (snd (split_tokens self input_marking delimiter)) = tokens self"
    by (simp add: split_tokens_snd)
  have e: "fst (future_has_access loads self' user_accesses_json marking) =
          fst (future_has_access loads self user_accesses_json marking)"
    by (rule future_has_access_fst)
  have f: "fst (validate_marking self' marking) = fst (validate_marking self marking)"
    if "tokens self' = tokens self"
    using that by (rule validate_marking_fst)
  have g: "fst (has_access self' user_accesses_json marking) =
            fst (has_access self user_accesses_json marking)"
    by (simp add: has_access_def)
  have h: "fst (split_tokens self' input_marking delimiter) =
            fst (split_tokens self input_marking delimiter)"
    if "tokens self' = tokens self"
    using that by (rule split_tokens_fst)
  from a b c d e f g h show ?thesis by blast
qed

theorem registry_unchanged_results_determined_witness:
  "tokens (init None None [LogError ''earlier'']) = tokens (init None None [])
   \<and> fst (validate_marking (init None None [LogError ''earlier'']) (Some ''S'')) =
       fst (validate_marking (init None None []) (Some ''S''))
   \<and> tokens (snd (future_has_access sample_loads (init None None []) (Some ''not json'') (Some ''S'')))
       = tokens (init None None [])"
proof -
  have h: "tokens (init None None [LogError ''earlier'']) = tokens (init None None [])"
    by (simp add: init_def)
  show ?thesis
    using h registry_unchanged_results_determined[where self = "init None None []"
        and self' = "init None None [LogError ''earlier'']" and loads = sample_loads
        and user_accesses_json = "Some ''not json''" and marking = "Some ''S''"
        and input_marking = "''S''" and delimiter = "''//''"]
    by blast
qed

end
